theory Spec2Isabelle
  imports Complex_Main "HOL-Library.Log_Nat"
begin

section \<open>Python values used by the decoder factory\<close>

text \<open>
  The thresholds of \<^verbatim>\<open>openpifpaf/decoder/factory.py\<close> are Python floats read by
  \<^verbatim>\<open>argparse\<close> with \<^verbatim>\<open>type=float\<close>, which also accepts \<^verbatim>\<open>nan\<close> and \<^verbatim>\<open>inf\<close>.
  A float is modelled by its value: a rational number, one of the two infinities,
  or NaN. The two signed zeros are one value (Python's \<^verbatim>\<open>==\<close> and \<^verbatim>\<open>>=\<close> do not
  tell them apart), and a decimal literal such as \<^verbatim>\<open>0.001\<close> stands for the float it
  denotes. The comparisons follow IEEE 754: every comparison with NaN is false.
\<close>

datatype pyfloat = Finite rat | PosInf | NegInf | NaN

fun fl_le :: "pyfloat \<Rightarrow> pyfloat \<Rightarrow> bool" where
  "fl_le NaN _ = False"
| "fl_le _ NaN = False"
| "fl_le NegInf _ = True"
| "fl_le _ PosInf = True"
| "fl_le (Finite a) (Finite b) = (a \<le> b)"
| "fl_le _ _ = False"

definition fl_ge :: "pyfloat \<Rightarrow> pyfloat \<Rightarrow> bool" where
  "fl_ge a b = fl_le b a"

definition fl_eq :: "pyfloat \<Rightarrow> pyfloat \<Rightarrow> bool" where
  "fl_eq a b = (a \<noteq> NaN \<and> a = b)"

definition fl_lt :: "pyfloat \<Rightarrow> pyfloat \<Rightarrow> bool" where
  "fl_lt a b = (fl_le a b \<and> \<not> fl_eq a b)"

text \<open>
  The exceptions the two functions can raise: a failed \<^verbatim>\<open>assert\<close> (assertions are
  enabled, the interpreter's default), an index out of range, an integer too large to
  convert to a float, and the plain \<^verbatim>\<open>Exception\<close> of the last line of
  \<^verbatim>\<open>factory_decode\<close>. The latter keeps its format string and the tuple that
  \<^verbatim>\<open>format\<close> renders into it.
\<close>

datatype error = AssertionError | IndexError | OverflowError | Exception string "string list"

section \<open>configure\<close>

text \<open>
  The attributes of the argparse namespace that \<^verbatim>\<open>configure\<close> reads or writes.
  \<^verbatim>\<open>keypoint_threshold\<close> and \<^verbatim>\<open>decoder_workers\<close> may be \<^verbatim>\<open>None\<close>;
  \<^verbatim>\<open>batch_size\<close> is read with \<^verbatim>\<open>getattr(args, 'batch_size', 1)\<close>, so the attribute
  may be absent, which is \<open>None\<close> here. Any further attribute lives in the
  extension part of the record and is never touched.
\<close>

record args =
  paf_th :: pyfloat
  connection_method :: string
  force_complete_pose :: bool
  pif_th :: pyfloat
  seed_threshold :: pyfloat
  instance_threshold :: pyfloat
  keypoint_threshold :: "pyfloat option"
  greedy :: bool
  decoder_workers :: "int option"
  batch_size :: "int option"
  debug :: bool

text \<open>
  The class attributes that \<^verbatim>\<open>configure\<close> assigns: process-wide state, passed
  explicitly. \<^verbatim>\<open>Visualizer_state\<close> is whatever \<^verbatim>\<open>visualizer.configure\<close> keeps; that
  module is not among the sources, so its \<^verbatim>\<open>configure\<close> is a parameter \<open>vc\<close> of the
  model: it updates the visualizer's own state from the arguments, returns normally and
  leaves the namespace as it is.
\<close>

record 'v classes =
  CifCaf_paf_th :: pyfloat
  CifCaf_connection_method :: string
  CifCaf_force_complete :: bool
  PafsDijkstra_paf_th :: pyfloat
  PafsDijkstra_connection_method :: string
  PafsDijkstra_force_complete :: bool
  PifHr_v_threshold :: pyfloat
  Visualizer_state :: 'v
  Frontier_keypoint_threshold :: pyfloat
  Frontier_greedy :: bool

text \<open>Lines 84-85: the keypoint threshold after the default rule.\<close>

definition resolve_keypoint_threshold :: "'z args_scheme \<Rightarrow> pyfloat" where
  "resolve_keypoint_threshold a =
     (case keypoint_threshold a of
        None \<Rightarrow> (if \<not> force_complete_pose a then Finite 0.001 else Finite 0.0)
      | Some k \<Rightarrow> k)"

text \<open>Lines 97-99: the condition under which the worker count is taken from the batch size.\<close>

definition workers_from_batch :: "'z args_scheme \<Rightarrow> bool" where
  "workers_from_batch a =
     (decoder_workers a = None \<and>
      (case batch_size a of None \<Rightarrow> 1 | Some b \<Rightarrow> b) > 1 \<and>
      \<not> debug a)"

text \<open>
  \<^verbatim>\<open>configure(args)\<close>, statement by statement. The result is the exception raised, if
  any, together with the namespace and the class attributes as the call leaves them:
  the assignments made before a failing \<^verbatim>\<open>assert\<close> stay in place.
\<close>

definition configure ::
  "('z args_scheme \<Rightarrow> 'v \<Rightarrow> 'v) \<Rightarrow> 'z args_scheme \<Rightarrow> 'v classes
     \<Rightarrow> (error + unit) \<times> 'z args_scheme \<times> 'v classes" where
  "configure vc a c =
     (let c1 = c\<lparr>CifCaf_paf_th := paf_th a,
                 CifCaf_connection_method := connection_method a,
                 CifCaf_force_complete := force_complete_pose a\<rparr>;
          c2 = c1\<lparr>PafsDijkstra_paf_th := paf_th a,
                   PafsDijkstra_connection_method := connection_method a,
                   PafsDijkstra_force_complete := force_complete_pose a\<rparr>;
          c3 = c2\<lparr>PifHr_v_threshold := pif_th a\<rparr>;
          c4 = c3\<lparr>Visualizer_state := vc a (Visualizer_state c3)\<rparr>;
          kt = resolve_keypoint_threshold a;
          a1 = a\<lparr>keypoint_threshold := Some kt\<rparr>
      in if force_complete_pose a1 \<and> \<not> fl_eq kt (Finite 0.0) then (Inl AssertionError, a1, c4)
         else if \<not> fl_ge (seed_threshold a1) kt then (Inl AssertionError, a1, c4)
         else
           let c5 = c4\<lparr>Frontier_keypoint_threshold := kt,
                        Frontier_greedy := greedy a1\<rparr>;
               a2 = (if workers_from_batch a1
                     then a1\<lparr>decoder_workers := batch_size a1\<rparr>
                     else a1)
           in (Inr (), a2, c5))"

section \<open>factory_decode\<close>

text \<open>
  Arithmetic in binary64, for the products \<^verbatim>\<open>model.head_strides[-1] * r\<close> and
  \<^verbatim>\<open>v * 3.0\<close> of \<^verbatim>\<open>factory_decode\<close>. \<open>round_binary64\<close> takes a rational to the
  nearest binary64 value, ties to the even significand: 53 significant bits, the
  exponent of the unit in the last place not below \<open>-1074\<close> (subnormals), and an
  infinity once the rounded magnitude reaches \<open>2 ^ 1024\<close>. \<open>floor_log2 x\<close> is the
  integer \<open>e\<close> with \<open>2 ^ e \<le> x < 2 ^ (e + 1)\<close>, for positive \<open>x\<close>.
\<close>

definition round_half_even :: "rat \<Rightarrow> int" where
  "round_half_even x =
     (let f = \<lfloor>x\<rfloor>; d = x - of_int f
      in if d < 1 / 2 then f
         else if 1 / 2 < d then f + 1
         else if even f then f else f + 1)"

definition floor_log2 :: "rat \<Rightarrow> int" where
  "floor_log2 x = (if 1 \<le> x then bitlen \<lfloor>x\<rfloor> - 1 else - bitlen (\<lceil>1 / x\<rceil> - 1))"

definition round_binary64 :: "rat \<Rightarrow> pyfloat" where
  "round_binary64 x =
     (if x = 0 then Finite 0
      else
        let e = max (floor_log2 \<bar>x\<bar>) (- 1022);
            ulp = 2 powi (e - 52);
            y = of_int (round_half_even (\<bar>x\<bar> / ulp)) * ulp
        in if 2 ^ 1024 \<le> y then (if 0 < x then PosInf else NegInf)
           else Finite (if 0 < x then y else - y))"

text \<open>
  The product of two floats: the rounded product of two finite values (Python does not
  raise when it overflows to an infinity), NaN for an infinity times zero.
\<close>

definition fl_sign :: "pyfloat \<Rightarrow> int" where
  "fl_sign x =
     (case x of Finite a \<Rightarrow> (if a < 0 then - 1 else if a = 0 then 0 else 1)
      | PosInf \<Rightarrow> 1 | NegInf \<Rightarrow> - 1 | NaN \<Rightarrow> 0)"

fun fl_mult :: "pyfloat \<Rightarrow> pyfloat \<Rightarrow> pyfloat" where
  "fl_mult NaN _ = NaN"
| "fl_mult _ NaN = NaN"
| "fl_mult (Finite a) (Finite b) = round_binary64 (a * b)"
| "fl_mult x y =
     (if fl_sign x * fl_sign y = 0 then NaN
      else if 0 < fl_sign x * fl_sign y then PosInf else NegInf)"

text \<open>
  A Python number is an \<^verbatim>\<open>int\<close> (unbounded) or a \<^verbatim>\<open>float\<close>. The conversion of an
  \<^verbatim>\<open>int\<close> to a \<^verbatim>\<open>float\<close> rounds to the nearest float and raises \<^verbatim>\<open>OverflowError\<close>
  when no finite float is near enough. \<open>int_times s r\<close> is \<^verbatim>\<open>s * r\<close> for an \<^verbatim>\<open>int\<close>
  \<open>s\<close>: exact when \<open>r\<close> is an \<^verbatim>\<open>int\<close>; when \<open>r\<close> is a \<^verbatim>\<open>float\<close>, \<open>s\<close> is converted
  first and the two floats are multiplied.
\<close>

datatype pynum = PyInt int | PyFloat pyfloat

definition int_to_float :: "int \<Rightarrow> error + pyfloat" where
  "int_to_float n =
     (case round_binary64 (of_int n) of
        Finite v \<Rightarrow> Inr (Finite v)
      | _ \<Rightarrow> Inl OverflowError)"

definition int_times :: "int \<Rightarrow> pynum \<Rightarrow> error + pynum" where
  "int_times s r =
     (case r of
        PyInt k \<Rightarrow> Inr (PyInt (s * k))
      | PyFloat f \<Rightarrow>
          (case int_to_float s of
             Inl e \<Rightarrow> Inl e
           | Inr x \<Rightarrow> Inr (PyFloat (fl_mult x f))))"

text \<open>A list comprehension whose element expression may raise: the first error ends it.\<close>

fun map_raising :: "('a \<Rightarrow> error + 'b) \<Rightarrow> 'a list \<Rightarrow> error + 'b list" where
  "map_raising f [] = Inr []"
| "map_raising f (x # xs) =
     (case f x of
        Inl e \<Rightarrow> Inl e
      | Inr y \<Rightarrow> (case map_raising f xs of Inl e \<Rightarrow> Inl e | Inr ys \<Rightarrow> Inr (y # ys)))"

text \<open>
  The model object: \<^verbatim>\<open>factory_decode\<close> reads its head names and its head strides
  (integers). \<^verbatim>\<open>xs[-1]\<close> raises \<^verbatim>\<open>IndexError\<close> on an empty list.
\<close>

record model =
  head_names :: "string list"
  head_strides :: "int list"

definition last_item :: "'a list \<Rightarrow> error + 'a" where
  "last_item xs = (case xs of [] \<Rightarrow> Inl IndexError | _ # _ \<Rightarrow> Inr (last xs))"

text \<open>
  The three tables imported from \<^verbatim>\<open>openpifpaf.data\<close>, a module outside the sources:
  they are a parameter of the model. A skeleton edge is a pair of keypoint indices.
\<close>

type_synonym edge = "nat \<times> nat"

record coco_data =
  COCO_KEYPOINTS :: "string list"
  COCO_PERSON_SKELETON :: "edge list"
  DENSER_COCO_PERSON_CONNECTIONS :: "edge list"

text \<open>
  The keyword-only parameters of \<^verbatim>\<open>factory_decode\<close>. \<^verbatim>\<open>kwargs\<close> are the remaining
  keyword arguments, handed on unchanged to the decoder's constructor (the caller
  \<^verbatim>\<open>factory_from_args\<close> passes \<^verbatim>\<open>seed_threshold\<close> and \<^verbatim>\<open>debug_visualizer\<close>); they are
  taken to be disjoint from the keywords the factory passes itself.
\<close>

record 'kw decode_options =
  dense_coupling :: pyfloat
  dense_connections :: bool
  paf_seeds :: bool
  multi_scale :: bool
  multi_scale_hflip :: bool
  kwargs :: 'kw

text \<open>
  The decoder classes \<^verbatim>\<open>Pif\<close>, \<^verbatim>\<open>PafsDijkstra\<close> and \<^verbatim>\<open>CifCaf\<close> are outside the
  sources. A decoder is represented by the constructor call that builds it: the class and
  the arguments as the factory passes them. A parameter that is one value in
  single-scale decoding and a list in multi-scale decoding is a \<open>scalar_or_list\<close>; a
  keyword that one call site passes and another omits is a \<open>kwarg\<close>. A stride is a
  Python number: the integer head stride itself, or one of its products with 1, 1.5, 2,
  3 and 5.
\<close>

datatype 'a scalar_or_list = Scalar 'a | Listed "'a list"

datatype 'a kwarg = Omitted | Given 'a

record 'kw Pif_call =
  Pif_stride :: int
  Pif_head_index :: int
  Pif_kwargs :: 'kw

record 'kw PafsDijkstra_call =
  PafsDijkstra_stride :: int
  PafsDijkstra_paf_index :: int
  PafsDijkstra_keypoints :: "string list"
  PafsDijkstra_skeleton :: "edge list"
  PafsDijkstra_out_skeleton :: "edge list"
  PafsDijkstra_confidence_scales :: "pyfloat list option"
  PafsDijkstra_kwargs :: 'kw

record 'kw CifCaf_call =
  CifCaf_stride :: "pynum scalar_or_list"
  CifCaf_pif_index :: "int scalar_or_list"
  CifCaf_paf_index :: "int scalar_or_list"
  CifCaf_pif_min_scale :: "pyfloat scalar_or_list kwarg"
  CifCaf_paf_min_distance :: "pyfloat scalar_or_list kwarg"
  CifCaf_paf_max_distance :: "pyfloat option scalar_or_list kwarg"
  CifCaf_keypoints :: "string list"
  CifCaf_skeleton :: "edge list"
  CifCaf_out_skeleton :: "edge list kwarg"
  CifCaf_confidence_scales :: "pyfloat list option kwarg"
  CifCaf_kwargs :: 'kw

datatype 'kw decoder =
    is_Pif: Pif "'kw Pif_call"
  | is_PafsDijkstra: PafsDijkstra "'kw PafsDijkstra_call"
  | is_CifCaf: CifCaf "'kw CifCaf_call"

text \<open>Python's \<^verbatim>\<open>xs * n\<close> on a list, and \<^verbatim>\<open>range(n)\<close> as a list of integers.\<close>

definition list_times :: "'a list \<Rightarrow> nat \<Rightarrow> 'a list" where
  "list_times xs n = concat (replicate n xs)"

definition range :: "nat \<Rightarrow> int list" where
  "range n = map int [0..<n]"

text \<open>
  Lines 179-210: the local variables of the \<^verbatim>\<open>('cif', 'paf', 'paf25')\<close> branch, from the
  last head stride \<open>s\<close>. Without multi-scale they keep their single-scale values.
  The stride table is formed first; an \<^verbatim>\<open>OverflowError\<close> of \<^verbatim>\<open>s * 1.5\<close> ends the call.
\<close>

record paf_locals =
  stride :: "pynum scalar_or_list"
  pif_index :: "int scalar_or_list"
  paf_index :: "int scalar_or_list"
  pif_min_scale :: "pyfloat scalar_or_list"
  paf_min_distance :: "pyfloat scalar_or_list"
  paf_max_distance :: "pyfloat option scalar_or_list"

definition paf_branch_locals :: "int \<Rightarrow> 'kw decode_options \<Rightarrow> error + paf_locals" where
  "paf_branch_locals s opts =
     (let l0 = \<lparr>stride = Scalar (PyInt s), pif_index = Scalar 0, paf_index = Scalar 1,
                pif_min_scale = Scalar (Finite 0.0), paf_min_distance = Scalar (Finite 0.0),
                paf_max_distance = Scalar None\<rparr>
      in if multi_scale opts \<and> multi_scale_hflip opts then
           (let resolutions =
                  list_times [PyInt 1, PyFloat (Finite 1.5), PyInt 2, PyInt 3, PyInt 5] 2
            in case map_raising (\<lambda>r. int_times s r) resolutions of
                 Inl e \<Rightarrow> Inl e
               | Inr strides \<Rightarrow>
                   (let pms = list_times [Finite 0.0, Finite 12.0, Finite 16.0, Finite 24.0,
                                          Finite 40.0] 2
                    in Inr \<lparr>stride = Listed strides,
                            pif_index = Listed (if \<not> dense_connections opts
                                                then map (\<lambda>v. v * 3) (range 10)
                                                else map (\<lambda>v. v * 2) (range 10)),
                            paf_index = Listed (if \<not> dense_connections opts
                                                then map (\<lambda>v. v * 3 + 1) (range 10)
                                                else map (\<lambda>v. v * 2 + 1) (range 10)),
                            pif_min_scale = Listed pms,
                            paf_min_distance =
                              Listed (map (\<lambda>v. fl_mult v (Finite 3.0)) pms),
                            paf_max_distance =
                              Listed (list_times
                                [Some (Finite 160.0), Some (Finite 240.0),
                                 Some (Finite 320.0), Some (Finite 480.0), None] 2)\<rparr>))
         else if multi_scale opts \<and> \<not> multi_scale_hflip opts then
           (let resolutions = [PyInt 1, PyFloat (Finite 1.5), PyInt 2, PyInt 3, PyInt 5]
            in case map_raising (\<lambda>r. int_times s r) resolutions of
                 Inl e \<Rightarrow> Inl e
               | Inr strides \<Rightarrow>
                   (let pms = [Finite 0.0, Finite 12.0, Finite 16.0, Finite 24.0,
                               Finite 40.0]
                    in Inr \<lparr>stride = Listed strides,
                            pif_index = Listed (if \<not> dense_connections opts
                                                then map (\<lambda>v. v * 3) (range 5)
                                                else map (\<lambda>v. v * 2) (range 5)),
                            paf_index = Listed (if \<not> dense_connections opts
                                                then map (\<lambda>v. v * 3 + 1) (range 5)
                                                else map (\<lambda>v. v * 2 + 1) (range 5)),
                            pif_min_scale = Listed pms,
                            paf_min_distance =
                              Listed (map (\<lambda>v. fl_mult v (Finite 3.0)) pms),
                            paf_max_distance =
                              Listed [Some (Finite 160.0), Some (Finite 240.0),
                                      Some (Finite 320.0), Some (Finite 480.0), None]\<rparr>))
         else Inr l0)"

text \<open>
  \<^verbatim>\<open>factory_decode(model, *, dense_coupling, dense_connections, paf_seeds, multi_scale,
  multi_scale_hflip, **kwargs)\<close>, branch by branch. The last line raises the plain
  \<^verbatim>\<open>Exception\<close> with the head names formatted into its message; an error raised
  while a branch computes its arguments ends the call.
\<close>

definition factory_decode ::
  "coco_data \<Rightarrow> model \<Rightarrow> 'kw decode_options \<Rightarrow> error + 'kw decoder" where
  "factory_decode d m opts =
     (let hn = head_names m in
      if hn = [''cif''] then
        (case last_item (head_strides m) of
           Inl e \<Rightarrow> Inl e
         | Inr s \<Rightarrow>
             Inr (Pif \<lparr>Pif_stride = s, Pif_head_index = 0, Pif_kwargs = kwargs opts\<rparr>))
      else if hn = [''cif'', ''caf'', ''caf25''] then
        (let (confidence_scales, skeleton) =
               (if dense_connections opts
                then (Some (map (\<lambda>_. Finite 1.0) (COCO_PERSON_SKELETON d) @
                            map (\<lambda>_. dense_coupling opts)
                              (DENSER_COCO_PERSON_CONNECTIONS d)),
                      COCO_PERSON_SKELETON d @ DENSER_COCO_PERSON_CONNECTIONS d)
                else (None, COCO_PERSON_SKELETON d))
         in case last_item (head_strides m) of
              Inl e \<Rightarrow> Inl e
            | Inr s \<Rightarrow>
                if paf_seeds opts then
                  Inr (PafsDijkstra
                        \<lparr>PafsDijkstra_stride = s,
                         PafsDijkstra_paf_index = 1,
                         PafsDijkstra_keypoints = COCO_KEYPOINTS d,
                         PafsDijkstra_skeleton = skeleton,
                         PafsDijkstra_out_skeleton = COCO_PERSON_SKELETON d,
                         PafsDijkstra_confidence_scales = confidence_scales,
                         PafsDijkstra_kwargs = kwargs opts\<rparr>)
                else
                  Inr (CifCaf
                        \<lparr>CifCaf_stride = Scalar (PyInt s),
                         CifCaf_pif_index = Scalar 0,
                         CifCaf_paf_index = Scalar 1,
                         CifCaf_pif_min_scale = Omitted,
                         CifCaf_paf_min_distance = Omitted,
                         CifCaf_paf_max_distance = Omitted,
                         CifCaf_keypoints = COCO_KEYPOINTS d,
                         CifCaf_skeleton = skeleton,
                         CifCaf_out_skeleton = Given (COCO_PERSON_SKELETON d),
                         CifCaf_confidence_scales = Given confidence_scales,
                         CifCaf_kwargs = kwargs opts\<rparr>))
      else if hn = [''cif'', ''paf'', ''paf25''] then
        (case last_item (head_strides m) of
           Inl e \<Rightarrow> Inl e
         | Inr s \<Rightarrow>
             (case paf_branch_locals s opts of
                Inl e \<Rightarrow> Inl e
              | Inr l \<Rightarrow>
                  if dense_connections opts then
                    (let confidence_scales =
                           map (\<lambda>_. Finite 1.0) (COCO_PERSON_SKELETON d) @
                           map (\<lambda>_. dense_coupling opts) (DENSER_COCO_PERSON_CONNECTIONS d)
                     in Inr (CifCaf
                              \<lparr>CifCaf_stride = stride l,
                               CifCaf_pif_index = pif_index l,
                               CifCaf_paf_index = paf_index l,
                               CifCaf_pif_min_scale = Given (pif_min_scale l),
                               CifCaf_paf_min_distance = Given (paf_min_distance l),
                               CifCaf_paf_max_distance = Given (paf_max_distance l),
                               CifCaf_keypoints = COCO_KEYPOINTS d,
                               CifCaf_skeleton =
                                 COCO_PERSON_SKELETON d @ DENSER_COCO_PERSON_CONNECTIONS d,
                               CifCaf_out_skeleton = Omitted,
                               CifCaf_confidence_scales = Given (Some confidence_scales),
                               CifCaf_kwargs = kwargs opts\<rparr>))
                  else
                    Inr (CifCaf
                          \<lparr>CifCaf_stride = stride l,
                           CifCaf_pif_index = pif_index l,
                           CifCaf_paf_index = paf_index l,
                           CifCaf_pif_min_scale = Given (pif_min_scale l),
                           CifCaf_paf_min_distance = Given (paf_min_distance l),
                           CifCaf_paf_max_distance = Given (paf_max_distance l),
                           CifCaf_keypoints = COCO_KEYPOINTS d,
                           CifCaf_skeleton = COCO_PERSON_SKELETON d,
                           CifCaf_out_skeleton = Omitted,
                           CifCaf_confidence_scales = Omitted,
                           CifCaf_kwargs = kwargs opts\<rparr>)))
      else Inl (Exception ''decoder unknown for head names: {}'' hn))"

text \<open>
  What the claims observe of a decoder: its skeleton (a \<^verbatim>\<open>Pif\<close> decoder has none) and
  its list of confidence scales, which is \<open>None\<close> both when the keyword is passed as
  \<^verbatim>\<open>None\<close> and when it is not passed. \<open>supported_head_names\<close> are the three tuples
  the factory tests for, and \<open>is_plain_Exception\<close> tells the generic \<^verbatim>\<open>Exception\<close>
  from the other errors.
\<close>

definition decoder_skeleton :: "'kw decoder \<Rightarrow> edge list option" where
  "decoder_skeleton dec =
     (case dec of Pif c \<Rightarrow> None
      | PafsDijkstra c \<Rightarrow> Some (PafsDijkstra_skeleton c)
      | CifCaf c \<Rightarrow> Some (CifCaf_skeleton c))"

definition decoder_confidence_scales :: "'kw decoder \<Rightarrow> pyfloat list option" where
  "decoder_confidence_scales dec =
     (case dec of Pif c \<Rightarrow> None
      | PafsDijkstra c \<Rightarrow> PafsDijkstra_confidence_scales c
      | CifCaf c \<Rightarrow> (case CifCaf_confidence_scales c of Omitted \<Rightarrow> None | Given x \<Rightarrow> x))"

definition is_plain_Exception :: "error \<Rightarrow> bool" where
  "is_plain_Exception e = (case e of Exception _ _ \<Rightarrow> True | _ \<Rightarrow> False)"

definition supported_head_names :: "string list list" where
  "supported_head_names =
     [[''cif''], [''cif'', ''caf'', ''caf25''], [''cif'', ''paf'', ''paf25'']]"

section \<open>Sample inputs\<close>

text \<open>
  A namespace as \<^verbatim>\<open>cli\<close> fills it by default (seed threshold 0.2, instance threshold
  0.0, keypoint threshold and worker count unset, force-complete-pose on), with 0.1 and
  \<^verbatim>\<open>'blend'\<close> for the defaults that \<^verbatim>\<open>cli\<close> reads from classes outside the sources,
  and a batch of four images. \<open>classes0\<close> is a state of the class attributes before
  the first call.
\<close>

definition default_args :: args where
  "default_args =
     \<lparr>paf_th = Finite 0.1, connection_method = ''blend'', force_complete_pose = True,
      pif_th = Finite 0.1, seed_threshold = Finite 0.2, instance_threshold = Finite 0.0,
      keypoint_threshold = None, greedy = False, decoder_workers = None,
      batch_size = Some 4, debug = False\<rparr>"

definition classes0 :: "nat classes" where
  "classes0 =
     \<lparr>CifCaf_paf_th = Finite 0.1, CifCaf_connection_method = ''blend'',
      CifCaf_force_complete = False,
      PafsDijkstra_paf_th = Finite 0.1, PafsDijkstra_connection_method = ''blend'',
      PafsDijkstra_force_complete = False,
      PifHr_v_threshold = Finite 0.1, Visualizer_state = 0,
      Frontier_keypoint_threshold = Finite 0.0, Frontier_greedy = False\<rparr>"

text \<open>A stand-in for the visualizer's configure: it counts its calls.\<close>

definition count_calls :: "args \<Rightarrow> nat \<Rightarrow> nat" where
  "count_calls a v = Suc v"

text \<open>
  The two namespaces of the witnesses below: incomplete poses allowed, so that the
  keypoint threshold resolves to 0.001, once with the default seed threshold 0.2 and once
  with a seed threshold of 0.0005.
\<close>

definition incomplete_args :: args where
  "incomplete_args = default_args\<lparr>force_complete_pose := False\<rparr>"

definition low_seed_args :: args where
  "low_seed_args = incomplete_args\<lparr>seed_threshold := Finite 0.0005\<rparr>"

definition incomplete_args_after :: args where
  "incomplete_args_after =
     incomplete_args\<lparr>keypoint_threshold := Some (Finite 0.001), decoder_workers := Some 4\<rparr>"

definition incomplete_classes_after :: "nat classes" where
  "incomplete_classes_after =
     classes0\<lparr>Visualizer_state := 1, Frontier_keypoint_threshold := Finite 0.001\<rparr>"

definition debug_args :: args where
  "debug_args = incomplete_args\<lparr>debug := True\<rparr>"

text \<open>
  Inputs for \<^verbatim>\<open>factory_decode\<close>: an excerpt of the COCO tables, the defaults of the
  keyword-only parameters, and one model per head configuration, with stride 8; one
  model whose last stride is too large for a float and one whose last stride is
  \<open>2 ^ 52 - 1\<close>, where the product with 1.5 is rounded; dense connections with the coupling
  0.01 of \<^verbatim>\<open>cli\<close> and with a coupling of 5.
\<close>

definition coco_sample :: coco_data where
  "coco_sample =
     \<lparr>COCO_KEYPOINTS = [''nose'', ''left_eye'', ''right_eye'', ''left_ear''],
      COCO_PERSON_SKELETON = [(2, 3), (1, 2), (1, 3)],
      DENSER_COCO_PERSON_CONNECTIONS = [(2, 4), (1, 4)]\<rparr>"

definition default_options :: "unit decode_options" where
  "default_options =
     \<lparr>dense_coupling = Finite 0.0, dense_connections = False, paf_seeds = False,
      multi_scale = False, multi_scale_hflip = True, kwargs = ()\<rparr>"

definition model_cif :: model where
  "model_cif = \<lparr>head_names = [''cif''], head_strides = [8]\<rparr>"

definition model_caf :: model where
  "model_caf = \<lparr>head_names = [''cif'', ''caf'', ''caf25''], head_strides = [8, 8, 8]\<rparr>"

definition model_paf :: model where
  "model_paf = \<lparr>head_names = [''cif'', ''paf'', ''paf25''], head_strides = [8, 8, 8]\<rparr>"

definition model_pif_paf :: model where
  "model_pif_paf = \<lparr>head_names = [''pif'', ''paf''], head_strides = [8, 8]\<rparr>"

definition model_no_strides :: model where
  "model_no_strides = \<lparr>head_names = [''cif''], head_strides = []\<rparr>"

definition dense_options :: "unit decode_options" where
  "dense_options =
     default_options\<lparr>dense_coupling := Finite 0.01, dense_connections := True\<rparr>"

definition multi_scale_options :: "unit decode_options" where
  "multi_scale_options = default_options\<lparr>multi_scale := True\<rparr>"

definition model_huge_stride :: model where
  "model_huge_stride =
     \<lparr>head_names = [''cif'', ''paf'', ''paf25''], head_strides = [8, 8, 2 ^ 1024]\<rparr>"

definition model_odd_stride :: model where
  "model_odd_stride =
     \<lparr>head_names = [''cif'', ''paf'', ''paf25''], head_strides = [8, 8, 4503599627370495]\<rparr>"

definition heavy_dense_options :: "unit decode_options" where
  "heavy_dense_options =
     default_options\<lparr>dense_coupling := Finite 5, dense_connections := True\<rparr>"

definition multi_scale_dense_options :: "unit decode_options" where
  "multi_scale_dense_options =
     dense_options\<lparr>multi_scale := True, multi_scale_hflip := False\<rparr>"

section \<open>Properties of configure\<close>

lemmas configure_unfold =
  configure_def resolve_keypoint_threshold_def workers_from_batch_def Let_def

lemmas fl_cmp = fl_ge_def fl_eq_def fl_lt_def

lemmas sample_unfold = default_args_def classes0_def count_calls_def

lemma fl_lt_not_ge: "fl_lt a b \<Longrightarrow> \<not> fl_ge a b"
  by (cases a; cases b) (auto simp: fl_cmp)

lemma configure_returns:
  assumes "configure vc a c = (Inr (), a', c')"
  shows "keypoint_threshold a' = Some (resolve_keypoint_threshold a)"
    and "seed_threshold a' = seed_threshold a"
    and "instance_threshold a' = instance_threshold a"
    and "fl_ge (seed_threshold a) (resolve_keypoint_threshold a)"
    and "force_complete_pose a \<Longrightarrow> fl_eq (resolve_keypoint_threshold a) (Finite 0.0)"
  using assms
  by (auto simp: configure_def workers_from_batch_def Let_def split: if_splits)

lemma configure_raises:
  assumes "\<not> fl_ge (seed_threshold a) (resolve_keypoint_threshold a)"
  shows "fst (configure vc a c) = Inl AssertionError"
  using assms by (simp add: configure_def Let_def)

text \<open>
  C2. When the keypoint threshold is left unset, \<^verbatim>\<open>configure\<close> stores 0.001 if
  force-complete-pose is off and 0.0 if it is on; a threshold that was supplied is
  kept as it is. This holds for whatever way the call ends, and on a normal return the
  same value is the one installed in \<^verbatim>\<open>Frontier.keypoint_threshold\<close>.
\<close>

theorem configure_keypoint_default:
  "keypoint_threshold (fst (snd (configure vc a c))) =
     (case keypoint_threshold a of
        None \<Rightarrow> Some (if force_complete_pose a then Finite 0.0 else Finite 0.001)
      | Some k \<Rightarrow> Some k)
   \<and> Some (Frontier_keypoint_threshold (snd (snd (configure vc a c)))) =
     (if fst (configure vc a c) = Inr ()
      then keypoint_threshold (fst (snd (configure vc a c)))
      else Some (Frontier_keypoint_threshold c))"
  by (simp add: configure_unfold split: option.splits)

text \<open>
  C3. With force-complete-pose on and a supplied keypoint threshold that does not compare
  equal to 0.0, \<^verbatim>\<open>configure\<close> raises the assertion error; the namespace is left exactly
  as it was supplied (the threshold is not replaced), and
  \<^verbatim>\<open>Frontier.keypoint_threshold\<close> is not assigned.
\<close>

theorem configure_force_complete_nonzero:
  assumes "force_complete_pose a"
    and "keypoint_threshold a = Some k"
    and "\<not> fl_eq k (Finite 0.0)"
  shows "fst (configure vc a c) = Inl AssertionError
       \<and> fst (snd (configure vc a c)) = a
       \<and> Frontier_keypoint_threshold (snd (snd (configure vc a c))) =
           Frontier_keypoint_threshold c"
  using assms by (simp add: configure_unfold)

theorem configure_force_complete_nonzero_witness:
  "fst (configure count_calls (default_args\<lparr>keypoint_threshold := Some (Finite 0.001)\<rparr>) classes0)
     = Inl AssertionError
   \<and> fst (snd (configure count_calls (default_args\<lparr>keypoint_threshold := Some (Finite 0.001)\<rparr>)
        classes0)) = default_args\<lparr>keypoint_threshold := Some (Finite 0.001)\<rparr>
   \<and> Frontier_keypoint_threshold (snd (snd (configure count_calls
        (default_args\<lparr>keypoint_threshold := Some (Finite 0.001)\<rparr>) classes0))) = Finite 0.0"
proof -
  have fc: "force_complete_pose (default_args\<lparr>keypoint_threshold := Some (Finite 0.001)\<rparr>)"
    by (simp add: default_args_def)
  have kt: "keypoint_threshold (default_args\<lparr>keypoint_threshold := Some (Finite 0.001)\<rparr>)
      = Some (Finite 0.001)"
    by simp
  have ne: "\<not> fl_eq (Finite 0.001) (Finite 0.0)"
    by (simp add: fl_eq_def)
  have "Frontier_keypoint_threshold classes0 = Finite 0.0"
    by (simp add: classes0_def)
  with configure_force_complete_nonzero [OF fc kt ne, of count_calls classes0]
  show ?thesis by simp
qed

text \<open>
  C8. After a normal return of \<^verbatim>\<open>configure\<close> the seed threshold is greater than or
  equal to the resolved keypoint threshold, which is the one stored in the namespace;
  and whenever the seed threshold is not greater than or equal to the resolved keypoint
  threshold (in particular when it is below it), \<^verbatim>\<open>configure\<close> raises the assertion
  error.
\<close>

theorem configure_seed_ge_keypoint:
  "(configure vc a c = (Inr (), a', c') \<longrightarrow>
      keypoint_threshold a' = Some (resolve_keypoint_threshold a)
      \<and> seed_threshold a' = seed_threshold a
      \<and> fl_ge (seed_threshold a') (resolve_keypoint_threshold a))
   \<and> (\<not> fl_ge (seed_threshold a) (resolve_keypoint_threshold a) \<longrightarrow>
      fst (configure vc a c) = Inl AssertionError)
   \<and> (fl_lt (seed_threshold a) (resolve_keypoint_threshold a) \<longrightarrow>
      fst (configure vc a c) = Inl AssertionError)"
  using configure_returns [of vc a c a' c'] configure_raises [of a vc c]
    fl_lt_not_ge [of "seed_threshold a" "resolve_keypoint_threshold a"]
  by auto

lemma configure_incomplete_args:
  "configure count_calls incomplete_args classes0 =
     (Inr (), incomplete_args_after, incomplete_classes_after)"
  by (simp add: configure_unfold sample_unfold fl_cmp incomplete_args_def
      incomplete_args_after_def incomplete_classes_after_def)

theorem configure_seed_ge_keypoint_witness:
  "configure count_calls incomplete_args classes0 =
     (Inr (), incomplete_args_after, incomplete_classes_after)
   \<and> keypoint_threshold incomplete_args_after = Some (Finite 0.001)
   \<and> fl_ge (seed_threshold incomplete_args_after) (Finite 0.001)
   \<and> fl_lt (seed_threshold low_seed_args) (resolve_keypoint_threshold low_seed_args)
   \<and> fst (configure count_calls low_seed_args classes0) = Inl AssertionError"
proof -
  have r: "resolve_keypoint_threshold incomplete_args = Finite 0.001"
    by (simp add: resolve_keypoint_threshold_def incomplete_args_def default_args_def)
  have lt: "fl_lt (seed_threshold low_seed_args) (resolve_keypoint_threshold low_seed_args)"
    by (simp add: resolve_keypoint_threshold_def low_seed_args_def incomplete_args_def
        default_args_def fl_cmp)
  from configure_seed_ge_keypoint
         [of count_calls incomplete_args classes0 incomplete_args_after incomplete_classes_after]
       configure_seed_ge_keypoint [of count_calls low_seed_args classes0]
       configure_incomplete_args r lt
  show ?thesis by simp
qed

text \<open>
  C1, as the claim states it, fails: with incomplete poses allowed and no keypoint
  threshold given, the default instance threshold 0.0 is below the resolved keypoint
  threshold 0.001, and \<^verbatim>\<open>configure\<close> returns normally.
\<close>

theorem configure_instance_below_keypoint_accepted:
  "fst (configure count_calls incomplete_args classes0) = Inr ()
   \<and> keypoint_threshold (fst (snd (configure count_calls incomplete_args classes0)))
       = Some (Finite 0.001)
   \<and> instance_threshold (fst (snd (configure count_calls incomplete_args classes0)))
       = Finite 0.0
   \<and> fl_lt (Finite 0.0) (Finite 0.001)
   \<and> \<not> fl_ge (Finite 0.0) (Finite 0.001)"
  unfolding configure_incomplete_args
  by (simp add: incomplete_args_after_def incomplete_args_def default_args_def fl_cmp)

text \<open>
  C1, amended. The threshold that \<^verbatim>\<open>configure\<close> compares with the keypoint threshold
  is the seed threshold: after a normal return the seed threshold is greater than or
  equal to the resolved keypoint threshold, and a seed threshold below the resolved
  keypoint threshold makes \<^verbatim>\<open>configure\<close> raise the assertion error. The instance
  threshold is not examined: it is left as given, and the way the call ends is the same
  for every instance threshold.
\<close>

theorem configure_checks_seed_not_instance:
  "(configure vc a c = (Inr (), a', c') \<longrightarrow>
      keypoint_threshold a' = Some (resolve_keypoint_threshold a)
      \<and> fl_ge (seed_threshold a') (resolve_keypoint_threshold a))
   \<and> (fl_lt (seed_threshold a) (resolve_keypoint_threshold a) \<longrightarrow>
      fst (configure vc a c) = Inl AssertionError)
   \<and> instance_threshold (fst (snd (configure vc a c))) = instance_threshold a
   \<and> fst (configure vc (a\<lparr>instance_threshold := x\<rparr>) c) = fst (configure vc a c)"
proof (intro conjI impI)
  assume ok: "configure vc a c = (Inr (), a', c')"
  from configure_returns(1) [OF ok]
  show "keypoint_threshold a' = Some (resolve_keypoint_threshold a)" .
  from configure_returns(2,4) [OF ok]
  show "fl_ge (seed_threshold a') (resolve_keypoint_threshold a)" by simp
next
  assume "fl_lt (seed_threshold a) (resolve_keypoint_threshold a)"
  then show "fst (configure vc a c) = Inl AssertionError"
    by (intro configure_raises fl_lt_not_ge)
next
  show "instance_threshold (fst (snd (configure vc a c))) = instance_threshold a"
    by (simp add: configure_unfold)
next
  show "fst (configure vc (a\<lparr>instance_threshold := x\<rparr>) c) = fst (configure vc a c)"
    by (simp add: configure_unfold)
qed

theorem configure_checks_seed_not_instance_witness:
  "configure count_calls incomplete_args classes0 =
     (Inr (), incomplete_args_after, incomplete_classes_after)
   \<and> keypoint_threshold incomplete_args_after = Some (Finite 0.001)
   \<and> fl_ge (seed_threshold incomplete_args_after) (Finite 0.001)
   \<and> fl_lt (seed_threshold low_seed_args) (resolve_keypoint_threshold low_seed_args)
   \<and> fst (configure count_calls low_seed_args classes0) = Inl AssertionError
   \<and> instance_threshold (fst (snd (configure count_calls low_seed_args classes0))) = Finite 0.0
   \<and> fst (configure count_calls (low_seed_args\<lparr>instance_threshold := Finite 1\<rparr>) classes0)
       = Inl AssertionError"
proof -
  have r: "resolve_keypoint_threshold incomplete_args = Finite 0.001"
    by (simp add: resolve_keypoint_threshold_def incomplete_args_def default_args_def)
  have lt: "fl_lt (seed_threshold low_seed_args) (resolve_keypoint_threshold low_seed_args)"
    by (simp add: resolve_keypoint_threshold_def low_seed_args_def incomplete_args_def
        default_args_def fl_cmp)
  have i: "instance_threshold low_seed_args = Finite 0.0"
    by (simp add: low_seed_args_def incomplete_args_def default_args_def)
  from configure_checks_seed_not_instance
         [of count_calls incomplete_args classes0 incomplete_args_after
            incomplete_classes_after]
       configure_checks_seed_not_instance [of count_calls low_seed_args classes0 _ _ "Finite 1"]
       configure_incomplete_args r lt i
  show ?thesis by simp
qed

text \<open>
  C9. \<^verbatim>\<open>configure\<close> is idempotent on what it accepts: called again on the namespace
  and the class attributes it left, it returns normally and leaves the namespace and
  every class attribute of the decoder as they were. Only the visualizer's own state is
  handed to the visualizer's configure a second time.
\<close>

theorem configure_idempotent:
  assumes "configure vc a c = (Inr (), a', c')"
  shows "configure vc a' c' =
           (Inr (), a', c'\<lparr>Visualizer_state := vc a' (Visualizer_state c')\<rparr>)"
proof -
  let ?kt = "resolve_keypoint_threshold a"
  have ge: "fl_ge (seed_threshold a) ?kt"
    and fc: "force_complete_pose a \<Longrightarrow> fl_eq ?kt (Finite 0.0)"
    using configure_returns(4,5) [OF assms] by simp_all
  from ge fc have ok: "\<not> (force_complete_pose a \<and> \<not> fl_eq ?kt (Finite 0.0))"
    "fl_ge (seed_threshold a) ?kt" by auto
  from assms ok have a': "a' = (if workers_from_batch a
      then a\<lparr>keypoint_threshold := Some ?kt, decoder_workers := batch_size a\<rparr>
      else a\<lparr>keypoint_threshold := Some ?kt\<rparr>)"
    by (auto simp: configure_def Let_def workers_from_batch_def split: if_splits)
  from assms ok have c': "c' = c\<lparr>CifCaf_paf_th := paf_th a,
      CifCaf_connection_method := connection_method a,
      CifCaf_force_complete := force_complete_pose a,
      PafsDijkstra_paf_th := paf_th a,
      PafsDijkstra_connection_method := connection_method a,
      PafsDijkstra_force_complete := force_complete_pose a,
      PifHr_v_threshold := pif_th a,
      Visualizer_state := vc a (Visualizer_state c),
      Frontier_keypoint_threshold := ?kt,
      Frontier_greedy := greedy a\<rparr>"
    by (auto simp: configure_def Let_def split: if_splits)
  have nw: "\<not> workers_from_batch a'"
    by (cases "batch_size a") (auto simp: a' workers_from_batch_def)
  have kt': "resolve_keypoint_threshold a' = ?kt"
    by (simp add: a' resolve_keypoint_threshold_def)
  have same: "a'\<lparr>keypoint_threshold := Some ?kt\<rparr> = a'"
    by (simp add: a')
  have flds: "force_complete_pose a' = force_complete_pose a"
    "seed_threshold a' = seed_threshold a" "paf_th a' = paf_th a"
    "connection_method a' = connection_method a" "pif_th a' = pif_th a"
    "greedy a' = greedy a"
    by (simp_all add: a')
  show ?thesis
    unfolding configure_def Let_def
    using ok nw by (simp add: kt' same flds) (simp add: c')
qed

theorem configure_idempotent_witness:
  "configure count_calls incomplete_args classes0 =
     (Inr (), incomplete_args_after, incomplete_classes_after)
   \<and> configure count_calls incomplete_args_after incomplete_classes_after =
     (Inr (), incomplete_args_after, incomplete_classes_after\<lparr>Visualizer_state := 2\<rparr>)"
proof -
  have "Visualizer_state incomplete_classes_after = 1"
    by (simp add: incomplete_classes_after_def)
  with configure_idempotent [OF configure_incomplete_args] configure_incomplete_args
  show ?thesis by (simp add: count_calls_def)
qed

text \<open>
  C10. On a normal return, \<^verbatim>\<open>configure\<close> has set the worker count to the batch size
  when the worker count was unset, the batch size is greater than 1 and debug mode is
  off. In every other case, and whenever the call raises, the worker count is as it
  was.
\<close>

theorem configure_decoder_workers:
  assumes "configure vc a c = (r, a', c')"
  shows "(r = Inr () \<and> decoder_workers a = None \<and> batch_size a = Some b \<and> 1 < b
            \<and> \<not> debug a \<longrightarrow> decoder_workers a' = Some b)
       \<and> (\<not> (decoder_workers a = None \<and> (\<exists>n. batch_size a = Some n \<and> 1 < n)
               \<and> \<not> debug a) \<longrightarrow> decoder_workers a' = decoder_workers a)
       \<and> (r \<noteq> Inr () \<longrightarrow> decoder_workers a' = decoder_workers a)"
  using assms
  by (cases "batch_size a")
     (auto simp: configure_def workers_from_batch_def Let_def split: if_splits)

lemma configure_debug_args:
  "configure count_calls debug_args classes0 =
     (Inr (), debug_args\<lparr>keypoint_threshold := Some (Finite 0.001)\<rparr>,
      incomplete_classes_after)"
  by (simp add: configure_unfold sample_unfold fl_cmp incomplete_args_def debug_args_def
      incomplete_classes_after_def)

lemma configure_low_seed_args:
  "configure count_calls low_seed_args classes0 =
     (Inl AssertionError, low_seed_args\<lparr>keypoint_threshold := Some (Finite 0.001)\<rparr>,
      classes0\<lparr>Visualizer_state := 1\<rparr>)"
  by (simp add: configure_unfold sample_unfold fl_cmp incomplete_args_def low_seed_args_def)

theorem configure_decoder_workers_witness:
  "decoder_workers incomplete_args = None \<and> batch_size incomplete_args = Some 4
   \<and> \<not> debug incomplete_args
   \<and> configure count_calls incomplete_args classes0 =
       (Inr (), incomplete_args_after, incomplete_classes_after)
   \<and> decoder_workers incomplete_args_after = Some 4
   \<and> debug debug_args
   \<and> decoder_workers (debug_args\<lparr>keypoint_threshold := Some (Finite 0.001)\<rparr>) = None
   \<and> decoder_workers (low_seed_args\<lparr>keypoint_threshold := Some (Finite 0.001)\<rparr>) = None"
proof -
  have pre: "decoder_workers incomplete_args = None" "batch_size incomplete_args = Some 4"
    "\<not> debug incomplete_args" "debug debug_args" "decoder_workers debug_args = None"
    "decoder_workers low_seed_args = None"
    by (simp_all add: incomplete_args_def default_args_def debug_args_def low_seed_args_def)
  from configure_decoder_workers [OF configure_incomplete_args, of 4]
       configure_decoder_workers [OF configure_debug_args, of 4]
       configure_decoder_workers [OF configure_low_seed_args, of 4]
       configure_incomplete_args pre
  show ?thesis by simp
qed

section \<open>Properties of the float arithmetic\<close>

lemma round_half_even_of_int: "round_half_even (of_int k) = k"
  by (simp add: round_half_even_def)

lemma floor_log2_le:
  assumes "0 < x" and "x < 2 ^ 52"
  shows "floor_log2 x \<le> 51"
proof (cases "1 \<le> x")
  case True
  have "\<lfloor>x\<rfloor> < 2 ^ 52"
    using assms(2) by (simp add: floor_less_iff)
  then have "bitlen \<lfloor>x\<rfloor> \<le> 52"
    by (simp add: bitlen_le_iff_power)
  with True show ?thesis by (simp add: floor_log2_def)
next
  case False
  have "0 \<le> bitlen (\<lceil>1 / x\<rceil> - 1)"
    by (rule bitlen_nonneg)
  with False show ?thesis by (simp add: floor_log2_def)
qed

text \<open>
  A value below \<open>2 ^ 52\<close> in magnitude that is a multiple of one half is a binary64
  value: rounding leaves it as it is.
\<close>

lemma round_binary64_exact:
  assumes "\<bar>x\<bar> < 2 ^ 52" and "2 * x = of_int n"
  shows "round_binary64 x = Finite x"
proof (cases "x = 0")
  case True
  then show ?thesis by (simp add: round_binary64_def)
next
  case False
  define e where "e = max (floor_log2 \<bar>x\<bar>) (- 1022)"
  define k where "k = nat (51 - e)"
  from False assms(1) have "floor_log2 \<bar>x\<bar> \<le> 51"
    by (intro floor_log2_le) simp_all
  then have e: "e \<le> 51"
    by (simp add: e_def)
  have ulp: "(2::rat) powi (e - 52) = 1 / (2 * 2 ^ k)"
  proof -
    have k1: "52 - e = int (Suc k)"
      using e by (simp add: k_def)
    have "(2::rat) powi (e - 52) * 2 powi (52 - e) = 2 powi ((e - 52) + (52 - e))"
      by (rule power_int_add [symmetric]) simp
    also have "\<dots> = 1" by simp
    finally have "(2::rat) powi (e - 52) * 2 powi (int (Suc k)) = 1"
      by (simp only: k1)
    then have "(2::rat) powi (e - 52) * 2 ^ Suc k = 1"
      by (simp only: power_int_of_nat)
    then show ?thesis by (simp add: field_simps)
  qed
  have "\<bar>x\<bar> / (2 powi (e - 52)) = (2 * \<bar>x\<bar>) * 2 ^ k"
    unfolding ulp by simp
  also have "2 * \<bar>x\<bar> = of_int \<bar>n\<bar>"
    using assms(2) by (metis abs_mult abs_numeral of_int_abs)
  finally have q: "\<bar>x\<bar> / (2 powi (e - 52)) = of_int (\<bar>n\<bar> * 2 ^ k)"
    by simp
  have y: "of_int (round_half_even (\<bar>x\<bar> / (2 powi (e - 52)))) * (2::rat) powi (e - 52) = \<bar>x\<bar>"
    unfolding q round_half_even_of_int using q by (simp add: ulp)
  have lt: "\<not> (2::rat) ^ 1024 \<le> \<bar>x\<bar>"
  proof -
    have "(2::rat) ^ 52 \<le> 2 ^ 1024"
      by (rule power_increasing) simp_all
    with assms(1) show ?thesis by linarith
  qed
  have r: "round_binary64 x =
      (if (2::rat) ^ 1024 \<le> \<bar>x\<bar> then (if 0 < x then PosInf else NegInf)
       else Finite (if 0 < x then \<bar>x\<bar> else - \<bar>x\<bar>))"
    unfolding round_binary64_def Let_def e_def [symmetric] y
    using False by (simp only: if_False)
  have s: "(if 0 < x then \<bar>x\<bar> else - \<bar>x\<bar>) = x"
    by simp
  show ?thesis
    unfolding r s using lt by (simp only: if_False)
qed

lemma floor_log2_power: "floor_log2 (2 ^ k) = int k"
proof -
  have "bitlen (2 ^ k) = int k + 1"
    using bitlen_twopow_add_eq [of 0 k] by simp
  moreover have "\<lfloor>(2::rat) ^ k\<rfloor> = 2 ^ k"
    by (metis floor_of_int of_int_numeral of_int_power)
  ultimately show ?thesis by (simp add: floor_log2_def)
qed

text \<open>A power of two from \<open>2 ^ 1024\<close> on rounds to infinity.\<close>

lemma round_binary64_power_overflow:
  assumes "1024 \<le> k"
  shows "round_binary64 (2 ^ k) = PosInf"
proof -
  define j where "j = k - 52"
  from assms have k: "k = j + 52"
    by (simp add: j_def)
  have e: "max (floor_log2 \<bar>(2::rat) ^ k\<bar>) (- 1022) = int k"
    by (simp add: floor_log2_power)
  have ulp: "(2::rat) powi (int k - 52) = 2 ^ j"
    by (simp add: k)
  have q: "\<bar>(2::rat) ^ k\<bar> / 2 ^ j = of_int (2 ^ 52)"
    by (simp add: k power_add)
  have y: "of_int (round_half_even (\<bar>(2::rat) ^ k\<bar> / 2 ^ j)) * (2::rat) ^ j = 2 ^ k"
    unfolding q round_half_even_of_int by (simp add: k power_add)
  have big: "(2::rat) ^ 1024 \<le> 2 ^ k"
    using assms by (intro power_increasing) simp_all
  show ?thesis
    unfolding round_binary64_def Let_def e ulp y using big by simp
qed

lemma int_to_float_overflow:
  assumes "1024 \<le> k"
  shows "int_to_float (2 ^ k) = Inl OverflowError"
  using round_binary64_power_overflow [OF assms] by (simp add: int_to_float_def)

lemma int_to_float_exact:
  assumes "\<bar>n\<bar> < 2 ^ 52"
  shows "int_to_float n = Inr (Finite (of_int n))"
proof -
  have "\<bar>rat_of_int n\<bar> < 2 ^ 52"
    using assms by (metis of_int_abs of_int_less_iff of_int_numeral of_int_power)
  moreover have "2 * rat_of_int n = of_int (2 * n)"
    by simp
  ultimately have "round_binary64 (of_int n) = Finite (of_int n)"
    by (rule round_binary64_exact)
  then show ?thesis by (simp add: int_to_float_def)
qed

lemma int_to_float_Inl: "int_to_float n = Inl e \<Longrightarrow> e = OverflowError"
  by (auto simp: int_to_float_def split: pyfloat.splits)

lemma int_to_float_Inr: "int_to_float n \<noteq> Inl OverflowError \<Longrightarrow> \<exists>x. int_to_float n = Inr x"
  by (cases "int_to_float n") (auto dest: int_to_float_Inl)

text \<open>
  For an integer \<open>s\<close> with \<open>3 \<bar>s\<bar> < 2 ^ 53\<close>, the float product \<^verbatim>\<open>s * 1.5\<close> is the
  exact product.
\<close>

lemma int_times_one_and_a_half:
  assumes "3 * \<bar>s\<bar> < 2 ^ 53"
  shows "int_to_float s = Inr (Finite (of_int s))"
    and "fl_mult (Finite (of_int s)) (Finite 1.5) = Finite (of_int s * 1.5)"
proof -
  from assms have "\<bar>s\<bar> < 2 ^ 52" by simp
  then show "int_to_float s = Inr (Finite (of_int s))"
    by (rule int_to_float_exact)
  have "rat_of_int (3 * \<bar>s\<bar>) < rat_of_int (2 ^ 53)"
    using assms by (simp only: of_int_less_iff)
  then have "\<bar>rat_of_int s * 1.5\<bar> < 2 ^ 52"
    by (simp add: abs_mult)
  moreover have "2 * (rat_of_int s * 1.5) = of_int (3 * s)"
    by simp
  ultimately have "round_binary64 (rat_of_int s * 1.5) = Finite (rat_of_int s * 1.5)"
    by (rule round_binary64_exact)
  then show "fl_mult (Finite (of_int s)) (Finite 1.5) = Finite (of_int s * 1.5)"
    by simp
qed

lemma round_binary64_values:
  "round_binary64 12 = Finite 12"
  "round_binary64 36 = Finite 36"
  "round_binary64 48 = Finite 48"
  "round_binary64 72 = Finite 72"
  "round_binary64 120 = Finite 120"
  using round_binary64_exact [of 12 24] round_binary64_exact [of 36 72]
    round_binary64_exact [of 48 96] round_binary64_exact [of 72 144]
    round_binary64_exact [of 120 240]
  by simp_all

lemma round_binary64_0: "round_binary64 0 = Finite 0"
  by (simp add: round_binary64_def)

section \<open>Properties of factory_decode\<close>

lemma last_item_nonempty: "xs \<noteq> [] \<Longrightarrow> last_item xs = Inr (last xs)"
  by (cases xs) (simp_all add: last_item_def)

lemma last_item_empty: "last_item [] = Inl IndexError"
  by (simp add: last_item_def)

lemma map_const_replicate: "map (\<lambda>_. c) xs = replicate (length xs) c"
  by (induction xs) simp_all

lemma range_5: "range 5 = [0, 1, 2, 3, 4]"
  by (simp add: range_def upt_rec)

lemma range_10: "range 10 = [0, 1, 2, 3, 4, 5, 6, 7, 8, 9]"
  by (simp add: range_def upt_rec)

lemma list_times_2: "list_times xs 2 = xs @ xs"
  by (simp add: list_times_def eval_nat_numeral)

lemma strides_returned:
  assumes "int_to_float s = Inr x"
  shows "map_raising (int_times s) [PyInt 1, PyFloat (Finite 1.5), PyInt 2, PyInt 3, PyInt 5] =
           Inr [PyInt (s * 1), PyFloat (fl_mult x (Finite 1.5)), PyInt (s * 2), PyInt (s * 3),
                PyInt (s * 5)]"
    and "map_raising (int_times s)
           (list_times [PyInt 1, PyFloat (Finite 1.5), PyInt 2, PyInt 3, PyInt 5] 2) =
           Inr ([PyInt (s * 1), PyFloat (fl_mult x (Finite 1.5)), PyInt (s * 2), PyInt (s * 3),
                 PyInt (s * 5)] @
                [PyInt (s * 1), PyFloat (fl_mult x (Finite 1.5)), PyInt (s * 2), PyInt (s * 3),
                 PyInt (s * 5)])"
  using assms by (simp_all add: int_times_def list_times_2)

lemma strides_raised:
  assumes "int_to_float s = Inl e"
  shows "map_raising (int_times s) [PyInt 1, PyFloat (Finite 1.5), PyInt 2, PyInt 3, PyInt 5] =
           Inl e"
    and "map_raising (int_times s)
           (list_times [PyInt 1, PyFloat (Finite 1.5), PyInt 2, PyInt 3, PyInt 5] 2) = Inl e"
  using assms by (simp_all add: int_times_def list_times_2)

lemma paf_branch_locals_raised:
  assumes "multi_scale opts" and "int_to_float s = Inl e"
  shows "paf_branch_locals s opts = Inl e"
  unfolding paf_branch_locals_def Let_def strides_raised [OF assms(2)]
  using assms(1) by simp

lemma paf_branch_locals_returned:
  assumes "multi_scale opts \<Longrightarrow> \<exists>x. int_to_float s = Inr x"
  shows "\<exists>l. paf_branch_locals s opts = Inr l"
proof (cases "multi_scale opts")
  case True
  with assms obtain x where x: "int_to_float s = Inr x" by blast
  show ?thesis
    unfolding paf_branch_locals_def Let_def strides_returned [OF x]
    using True by simp
next
  case False
  then show ?thesis by (simp add: paf_branch_locals_def)
qed

lemma paf_branch_locals_multi_scale:
  assumes "multi_scale opts" and "int_to_float s = Inr x"
  shows "paf_branch_locals s opts =
     Inr \<lparr>stride =
            Listed (if multi_scale_hflip opts
                    then [PyInt (s * 1), PyFloat (fl_mult x (Finite 1.5)), PyInt (s * 2),
                          PyInt (s * 3), PyInt (s * 5),
                          PyInt (s * 1), PyFloat (fl_mult x (Finite 1.5)), PyInt (s * 2),
                          PyInt (s * 3), PyInt (s * 5)]
                    else [PyInt (s * 1), PyFloat (fl_mult x (Finite 1.5)), PyInt (s * 2),
                          PyInt (s * 3), PyInt (s * 5)]),
          pif_index =
            Listed (if dense_connections opts
                    then (if multi_scale_hflip opts then [0, 2, 4, 6, 8, 10, 12, 14, 16, 18]
                          else [0, 2, 4, 6, 8])
                    else (if multi_scale_hflip opts
                          then [0, 3, 6, 9, 12, 15, 18, 21, 24, 27]
                          else [0, 3, 6, 9, 12])),
          paf_index =
            Listed (if dense_connections opts
                    then (if multi_scale_hflip opts then [1, 3, 5, 7, 9, 11, 13, 15, 17, 19]
                          else [1, 3, 5, 7, 9])
                    else (if multi_scale_hflip opts
                          then [1, 4, 7, 10, 13, 16, 19, 22, 25, 28]
                          else [1, 4, 7, 10, 13])),
          pif_min_scale =
            Listed (if multi_scale_hflip opts
                    then [Finite 0, Finite 12, Finite 16, Finite 24, Finite 40,
                          Finite 0, Finite 12, Finite 16, Finite 24, Finite 40]
                    else [Finite 0, Finite 12, Finite 16, Finite 24, Finite 40]),
          paf_min_distance =
            Listed (if multi_scale_hflip opts
                    then [Finite 0, Finite 36, Finite 48, Finite 72, Finite 120,
                          Finite 0, Finite 36, Finite 48, Finite 72, Finite 120]
                    else [Finite 0, Finite 36, Finite 48, Finite 72, Finite 120]),
          paf_max_distance =
            Listed (if multi_scale_hflip opts
                    then [Some (Finite 160), Some (Finite 240), Some (Finite 320),
                          Some (Finite 480), None,
                          Some (Finite 160), Some (Finite 240), Some (Finite 320),
                          Some (Finite 480), None]
                    else [Some (Finite 160), Some (Finite 240), Some (Finite 320),
                          Some (Finite 480), None])\<rparr>"
  unfolding paf_branch_locals_def Let_def strides_returned [OF assms(2)]
  using assms(1)
  by (simp add: range_5 range_10 list_times_2 round_binary64_values round_binary64_0)

text \<open>
  C4, as the claim states it, fails: for the head names \<^verbatim>\<open>('pif', 'paf')\<close> the error
  raised is the generic \<^verbatim>\<open>Exception\<close>, the only error class the last line of
  \<^verbatim>\<open>factory_decode\<close> knows.
\<close>

theorem factory_decode_unknown_heads_plain_Exception:
  "factory_decode coco_sample model_pif_paf default_options =
     Inl (Exception ''decoder unknown for head names: {}'' [''pif'', ''paf''])
   \<and> is_plain_Exception (Exception ''decoder unknown for head names: {}'' [''pif'', ''paf''])"
  by (simp add: factory_decode_def model_pif_paf_def is_plain_Exception_def)

text \<open>
  C4, amended. For head names other than the three supported tuples \<^verbatim>\<open>factory_decode\<close>
  raises the plain \<^verbatim>\<open>Exception\<close> whose message is the format string
  \<^verbatim>\<open>'decoder unknown for head names: {}'\<close> filled with the head names, and returns no
  decoder. For each of the three tuples it raises \<^verbatim>\<open>IndexError\<close> when the model has no
  head stride, and otherwise returns a decoder, unless multi-scale decoding of
  \<^verbatim>\<open>('cif', 'paf', 'paf25')\<close> meets a last head stride too large to convert to a float:
  then the product with 1.5 raises \<^verbatim>\<open>OverflowError\<close>.
\<close>

theorem factory_decode_dispatch:
  "(head_names m \<notin> set supported_head_names \<longrightarrow>
      factory_decode d m opts =
        Inl (Exception ''decoder unknown for head names: {}'' (head_names m)))
   \<and> (head_names m \<in> set supported_head_names \<and> head_strides m = [] \<longrightarrow>
        factory_decode d m opts = Inl IndexError)
   \<and> (head_names m \<in> set supported_head_names \<and> head_strides m \<noteq> []
        \<and> (head_names m = [''cif'', ''paf'', ''paf25''] \<and> multi_scale opts \<longrightarrow>
             int_to_float (last (head_strides m)) \<noteq> Inl OverflowError) \<longrightarrow>
        (\<exists>dec. factory_decode d m opts = Inr dec))
   \<and> (head_names m = [''cif'', ''paf'', ''paf25''] \<and> head_strides m \<noteq> []
        \<and> multi_scale opts
        \<and> int_to_float (last (head_strides m)) = Inl OverflowError \<longrightarrow>
        factory_decode d m opts = Inl OverflowError)"
proof (intro conjI impI)
  assume "head_names m \<notin> set supported_head_names"
  then show "factory_decode d m opts =
      Inl (Exception ''decoder unknown for head names: {}'' (head_names m))"
    by (simp add: supported_head_names_def factory_decode_def)
next
  assume "head_names m \<in> set supported_head_names \<and> head_strides m = []"
  then have hn: "head_names m \<in> set supported_head_names"
    and li: "last_item (head_strides m) = Inl IndexError"
    by (simp_all add: last_item_empty)
  from hn consider "head_names m = [''cif'']" | "head_names m = [''cif'', ''caf'', ''caf25'']"
    | "head_names m = [''cif'', ''paf'', ''paf25'']"
    by (auto simp: supported_head_names_def)
  then show "factory_decode d m opts = Inl IndexError"
    by cases (simp_all add: factory_decode_def li Let_def)
next
  assume a: "head_names m \<in> set supported_head_names \<and> head_strides m \<noteq> []
        \<and> (head_names m = [''cif'', ''paf'', ''paf25''] \<and> multi_scale opts \<longrightarrow>
             int_to_float (last (head_strides m)) \<noteq> Inl OverflowError)"
  then have hn: "head_names m \<in> set supported_head_names"
    and li: "last_item (head_strides m) = Inr (last (head_strides m))"
    by (simp_all add: last_item_nonempty)
  from hn consider "head_names m = [''cif'']" | "head_names m = [''cif'', ''caf'', ''caf25'']"
    | (paf) "head_names m = [''cif'', ''paf'', ''paf25'']"
    by (auto simp: supported_head_names_def)
  then show "\<exists>dec. factory_decode d m opts = Inr dec"
  proof cases
    case paf
    with a have "multi_scale opts \<Longrightarrow> \<exists>x. int_to_float (last (head_strides m)) = Inr x"
      by (simp add: int_to_float_Inr)
    then obtain l where "paf_branch_locals (last (head_strides m)) opts = Inr l"
      using paf_branch_locals_returned by blast
    with paf show ?thesis
      by (simp add: factory_decode_def li Let_def)
  qed (simp_all add: factory_decode_def li Let_def)
next
  assume a: "head_names m = [''cif'', ''paf'', ''paf25''] \<and> head_strides m \<noteq> []
        \<and> multi_scale opts
        \<and> int_to_float (last (head_strides m)) = Inl OverflowError"
  then have "paf_branch_locals (last (head_strides m)) opts = Inl OverflowError"
    by (simp add: paf_branch_locals_raised)
  with a show "factory_decode d m opts = Inl OverflowError"
    by (simp add: factory_decode_def last_item_nonempty)
qed

lemma last_stride_huge: "last (head_strides model_huge_stride) = 2 ^ 1024"
  by (simp add: model_huge_stride_def)

lemma int_to_float_8: "int_to_float 8 = Inr (Finite 8)"
  using int_to_float_exact [of 8] by simp

theorem factory_decode_dispatch_witness:
  "factory_decode coco_sample model_pif_paf default_options =
     Inl (Exception ''decoder unknown for head names: {}'' [''pif'', ''paf''])
   \<and> factory_decode coco_sample model_no_strides default_options = Inl IndexError
   \<and> (\<exists>dec. factory_decode coco_sample model_cif default_options = Inr dec)
   \<and> (\<exists>dec. factory_decode coco_sample model_caf default_options = Inr dec)
   \<and> (\<exists>dec. factory_decode coco_sample model_paf multi_scale_options = Inr dec)
   \<and> (\<exists>dec. factory_decode coco_sample model_huge_stride default_options = Inr dec)
   \<and> factory_decode coco_sample model_huge_stride multi_scale_options = Inl OverflowError"
proof -
  have pif: "head_names model_pif_paf = [''pif'', ''paf'']"
    "head_names model_pif_paf \<notin> set supported_head_names"
    by (simp_all add: supported_head_names_def model_pif_paf_def)
  have none: "head_names model_no_strides \<in> set supported_head_names"
    "head_strides model_no_strides = []"
    by (simp_all add: supported_head_names_def model_no_strides_def)
  have cif: "head_names model_cif \<in> set supported_head_names"
    "head_strides model_cif \<noteq> []"
    "head_names model_cif \<noteq> [''cif'', ''paf'', ''paf25'']"
    by (simp_all add: supported_head_names_def model_cif_def)
  have caf: "head_names model_caf \<in> set supported_head_names"
    "head_strides model_caf \<noteq> []"
    "head_names model_caf \<noteq> [''cif'', ''paf'', ''paf25'']"
    by (simp_all add: supported_head_names_def model_caf_def)
  have paf: "head_names model_paf \<in> set supported_head_names"
    "head_strides model_paf \<noteq> []"
    "int_to_float (last (head_strides model_paf)) \<noteq> Inl OverflowError"
    by (simp_all add: supported_head_names_def model_paf_def int_to_float_8)
  have huge: "head_names model_huge_stride \<in> set supported_head_names"
    "head_names model_huge_stride = [''cif'', ''paf'', ''paf25'']"
    "head_strides model_huge_stride \<noteq> []"
    by (simp_all add: supported_head_names_def model_huge_stride_def)
  have ovf: "int_to_float (last (head_strides model_huge_stride)) = Inl OverflowError"
    unfolding last_stride_huge by (rule int_to_float_overflow) simp
  have ms: "multi_scale multi_scale_options" "\<not> multi_scale default_options"
    by (simp_all add: multi_scale_options_def default_options_def)
  have 1: "factory_decode coco_sample model_pif_paf default_options =
      Inl (Exception ''decoder unknown for head names: {}'' [''pif'', ''paf''])"
    using factory_decode_dispatch [of model_pif_paf coco_sample default_options] pif
    by simp
  have 2: "factory_decode coco_sample model_no_strides default_options = Inl IndexError"
    using factory_decode_dispatch [of model_no_strides coco_sample default_options] none
    by blast
  have 3: "\<exists>dec. factory_decode coco_sample model_cif default_options = Inr dec"
    using factory_decode_dispatch [of model_cif coco_sample default_options] cif
    by blast
  have 4: "\<exists>dec. factory_decode coco_sample model_caf default_options = Inr dec"
    using factory_decode_dispatch [of model_caf coco_sample default_options] caf
    by blast
  have 5: "\<exists>dec. factory_decode coco_sample model_paf multi_scale_options = Inr dec"
    using factory_decode_dispatch [of model_paf coco_sample multi_scale_options] paf
    by blast
  have 6: "\<exists>dec. factory_decode coco_sample model_huge_stride default_options = Inr dec"
    using factory_decode_dispatch [of model_huge_stride coco_sample default_options]
      huge ms(2)
    by blast
  have 7: "factory_decode coco_sample model_huge_stride multi_scale_options
      = Inl OverflowError"
    using factory_decode_dispatch [of model_huge_stride coco_sample multi_scale_options]
      huge ms(1) ovf
    by blast
  from 1 2 3 4 5 6 7 show ?thesis by (intro conjI)
qed

text \<open>
  C5, as the claim states it, fails in its gloss that the dense edges are
  lower-weighted: with a dense coupling of 5 the decoder is built with confidence scale
  5.0 for each dense edge, above the 1.0 of the base edges.
\<close>

theorem factory_decode_dense_coupling_above_one:
  "factory_decode coco_sample model_caf heavy_dense_options =
     Inr (CifCaf
       \<lparr>CifCaf_stride = Scalar (PyInt 8),
        CifCaf_pif_index = Scalar 0,
        CifCaf_paf_index = Scalar 1,
        CifCaf_pif_min_scale = Omitted,
        CifCaf_paf_min_distance = Omitted,
        CifCaf_paf_max_distance = Omitted,
        CifCaf_keypoints = [''nose'', ''left_eye'', ''right_eye'', ''left_ear''],
        CifCaf_skeleton = [(2, 3), (1, 2), (1, 3), (2, 4), (1, 4)],
        CifCaf_out_skeleton = Given [(2, 3), (1, 2), (1, 3)],
        CifCaf_confidence_scales =
          Given (Some [Finite 1.0, Finite 1.0, Finite 1.0, Finite 5, Finite 5]),
        CifCaf_kwargs = ()\<rparr>)
   \<and> fl_lt (Finite 1.0) (Finite 5)
   \<and> \<not> fl_lt (Finite 5) (Finite 1.0)"
  by (simp add: factory_decode_def last_item_def model_caf_def heavy_dense_options_def
      default_options_def coco_sample_def fl_lt_def fl_eq_def)

text \<open>
  C5, amended. In the \<^verbatim>\<open>('cif', 'caf', 'caf25')\<close> and the \<^verbatim>\<open>('cif', 'paf', 'paf25')\<close>
  configuration alike, whenever the call builds a decoder (the model has a head stride
  and the stride table of multi-scale decoding does not overflow), its skeleton, with
  dense connections, is the base skeleton followed by the denser connections, and its
  confidence scales are 1.0 for every base edge followed by the caller's dense coupling,
  as passed, for every dense edge; every dense edge is weighted below 1.0 exactly when
  that coupling is below 1.0 or there is no dense edge. Without dense connections the
  skeleton is the base skeleton and there is no list of confidence scales.
\<close>

theorem factory_decode_dense_connections:
  assumes "head_names m = [''cif'', ''caf'', ''caf25'']
         \<or> head_names m = [''cif'', ''paf'', ''paf25'']"
    and "head_strides m \<noteq> []"
    and "\<lbrakk>head_names m = [''cif'', ''paf'', ''paf25'']; multi_scale opts\<rbrakk>
         \<Longrightarrow> int_to_float (last (head_strides m)) \<noteq> Inl OverflowError"
  shows "\<exists>dec. factory_decode d m opts = Inr dec
       \<and> decoder_skeleton dec =
           Some (if dense_connections opts
                 then COCO_PERSON_SKELETON d @ DENSER_COCO_PERSON_CONNECTIONS d
                 else COCO_PERSON_SKELETON d)
       \<and> decoder_confidence_scales dec =
           (if dense_connections opts
            then Some (replicate (length (COCO_PERSON_SKELETON d)) (Finite 1.0) @
                       replicate (length (DENSER_COCO_PERSON_CONNECTIONS d))
                         (dense_coupling opts))
            else None)
       \<and> (dense_connections opts \<longrightarrow>
            (\<exists>scales. decoder_confidence_scales dec = Some scales
               \<and> list_all (\<lambda>w. fl_lt w (Finite 1.0))
                    (drop (length (COCO_PERSON_SKELETON d)) scales) =
                  (DENSER_COCO_PERSON_CONNECTIONS d = []
                   \<or> fl_lt (dense_coupling opts) (Finite 1.0))))"
proof -
  from assms(2) have li: "last_item (head_strides m) = Inr (last (head_strides m))"
    by (rule last_item_nonempty)
  have all: "list_all P (replicate n w) = (n = 0 \<or> P w)" for P :: "pyfloat \<Rightarrow> bool" and n w
    by (cases n) (auto simp: list_all_iff)
  from assms(1) show ?thesis
  proof
    assume "head_names m = [''cif'', ''caf'', ''caf25'']"
    then show ?thesis
      by (simp add: factory_decode_def li Let_def decoder_skeleton_def
          decoder_confidence_scales_def map_const_replicate all)
  next
    assume paf: "head_names m = [''cif'', ''paf'', ''paf25'']"
    with assms(3) have "multi_scale opts \<Longrightarrow> \<exists>x. int_to_float (last (head_strides m)) = Inr x"
      by (simp add: int_to_float_Inr)
    then obtain l where "paf_branch_locals (last (head_strides m)) opts = Inr l"
      using paf_branch_locals_returned by blast
    with paf show ?thesis
      by (simp add: factory_decode_def li Let_def decoder_skeleton_def
          decoder_confidence_scales_def map_const_replicate all)
  qed
qed

theorem factory_decode_dense_connections_witness:
  "(\<exists>dec. factory_decode coco_sample model_caf dense_options = Inr dec
      \<and> decoder_skeleton dec = Some [(2, 3), (1, 2), (1, 3), (2, 4), (1, 4)]
      \<and> decoder_confidence_scales dec =
          Some [Finite 1.0, Finite 1.0, Finite 1.0, Finite 0.01, Finite 0.01])
   \<and> (\<exists>dec. factory_decode coco_sample model_paf multi_scale_dense_options = Inr dec
      \<and> decoder_skeleton dec = Some [(2, 3), (1, 2), (1, 3), (2, 4), (1, 4)]
      \<and> decoder_confidence_scales dec =
          Some [Finite 1.0, Finite 1.0, Finite 1.0, Finite 0.01, Finite 0.01])
   \<and> (\<exists>dec. factory_decode coco_sample model_paf default_options = Inr dec
      \<and> decoder_skeleton dec = Some [(2, 3), (1, 2), (1, 3)]
      \<and> decoder_confidence_scales dec = None)"
proof -
  have caf: "head_names model_caf = [''cif'', ''caf'', ''caf25'']
           \<or> head_names model_caf = [''cif'', ''paf'', ''paf25'']"
    and paf: "head_names model_paf = [''cif'', ''caf'', ''caf25'']
           \<or> head_names model_paf = [''cif'', ''paf'', ''paf25'']"
    and ne: "head_strides model_caf \<noteq> []" "head_strides model_paf \<noteq> []"
    and no: "int_to_float (last (head_strides model_caf)) \<noteq> Inl OverflowError"
      "int_to_float (last (head_strides model_paf)) \<noteq> Inl OverflowError"
    by (simp_all add: model_caf_def model_paf_def int_to_float_8)
  have opts: "dense_connections dense_options" "dense_coupling dense_options = Finite 0.01"
    "dense_connections multi_scale_dense_options"
    "dense_coupling multi_scale_dense_options = Finite 0.01"
    "\<not> dense_connections default_options"
    by (simp_all add: dense_options_def default_options_def multi_scale_dense_options_def)
  have tabs: "COCO_PERSON_SKELETON coco_sample = [(2, 3), (1, 2), (1, 3)]"
    "DENSER_COCO_PERSON_CONNECTIONS coco_sample = [(2, 4), (1, 4)]"
    by (simp_all add: coco_sample_def)
  have 1: "\<exists>dec. factory_decode coco_sample model_caf dense_options = Inr dec
      \<and> decoder_skeleton dec = Some [(2, 3), (1, 2), (1, 3), (2, 4), (1, 4)]
      \<and> decoder_confidence_scales dec =
          Some [Finite 1.0, Finite 1.0, Finite 1.0, Finite 0.01, Finite 0.01]"
    using factory_decode_dense_connections [OF caf ne(1) no(1), of coco_sample dense_options]
    by (auto simp: opts tabs eval_nat_numeral)
  have 2: "\<exists>dec. factory_decode coco_sample model_paf multi_scale_dense_options = Inr dec
      \<and> decoder_skeleton dec = Some [(2, 3), (1, 2), (1, 3), (2, 4), (1, 4)]
      \<and> decoder_confidence_scales dec =
          Some [Finite 1.0, Finite 1.0, Finite 1.0, Finite 0.01, Finite 0.01]"
    using factory_decode_dense_connections
      [OF paf ne(2) no(2), of coco_sample multi_scale_dense_options]
    by (auto simp: opts tabs eval_nat_numeral)
  have 3: "\<exists>dec. factory_decode coco_sample model_paf default_options = Inr dec
      \<and> decoder_skeleton dec = Some [(2, 3), (1, 2), (1, 3)]
      \<and> decoder_confidence_scales dec = None"
    using factory_decode_dense_connections [OF paf ne(2) no(2), of coco_sample default_options]
    by (auto simp: opts tabs)
  from 1 2 3 show ?thesis by (intro conjI)
qed

text \<open>
  C6. For the head names \<^verbatim>\<open>('cif', 'caf', 'caf25')\<close> the one decoder returned is a
  \<^verbatim>\<open>PafsDijkstra\<close> exactly when \<^verbatim>\<open>paf_seeds\<close> is set and a \<^verbatim>\<open>CifCaf\<close> exactly when it
  is not.
\<close>

theorem factory_decode_assembler_choice:
  assumes "head_names m = [''cif'', ''caf'', ''caf25'']"
    and "head_strides m \<noteq> []"
  shows "\<exists>dec. factory_decode d m opts = Inr dec
       \<and> is_PafsDijkstra dec = paf_seeds opts
       \<and> is_CifCaf dec = (\<not> paf_seeds opts)
       \<and> \<not> is_Pif dec"
  using assms
  by (simp add: factory_decode_def last_item_nonempty Let_def split: prod.splits)

theorem factory_decode_assembler_choice_witness:
  "(\<exists>dec. factory_decode coco_sample model_caf (default_options\<lparr>paf_seeds := True\<rparr>) = Inr dec
      \<and> is_PafsDijkstra dec \<and> \<not> is_CifCaf dec)
   \<and> (\<exists>dec. factory_decode coco_sample model_caf default_options = Inr dec
      \<and> is_CifCaf dec \<and> \<not> is_PafsDijkstra dec)"
proof -
  have caf: "head_names model_caf = [''cif'', ''caf'', ''caf25'']"
    and ne: "head_strides model_caf \<noteq> []"
    by (simp_all add: model_caf_def)
  have opts: "paf_seeds (default_options\<lparr>paf_seeds := True\<rparr>)" "\<not> paf_seeds default_options"
    by (simp_all add: default_options_def)
  from factory_decode_assembler_choice
         [OF caf ne, of coco_sample "default_options\<lparr>paf_seeds := True\<rparr>"]
       factory_decode_assembler_choice [OF caf ne, of coco_sample default_options]
  show ?thesis by (simp add: opts) blast
qed

text \<open>
  C7. For the head names \<^verbatim>\<open>('cif', 'paf', 'paf25')\<close> with multi-scale, when the last head
  stride \<open>s\<close> converts to a float (otherwise \<^verbatim>\<open>s * 1.5\<close> raises), the decoder is a
  \<^verbatim>\<open>CifCaf\<close> built with per-resolution tables: the strides \<^verbatim>\<open>s * r\<close> for the resolutions
  1, 1.5, 2, 3, 5, where the products with the integers are exact and the product with
  1.5 is the float product, itself exact whenever \<open>3 \<bar>s\<bar> < 2 ^ 53\<close>; the minimal scales
  0, 12, 16, 24, 40; the minimal distances, which are these scales times 3.0, that is 0,
  36, 48, 72, 120; the maximal distances 160, 240, 320, 480, \<^verbatim>\<open>None\<close>; each of them
  twice over with the mirrored pass (ten entries) and once without (five entries). The
  pif and paf indices are \<open>3 v\<close> and \<open>3 v + 1\<close> without dense connections, \<open>2 v\<close> and
  \<open>2 v + 1\<close> with them, for \<open>v\<close> from 0 up to the number of entries.
\<close>

theorem factory_decode_multi_scale_tables:
  assumes "head_names m = [''cif'', ''paf'', ''paf25'']"
    and "head_strides m \<noteq> []"
    and "multi_scale opts"
    and "s = last (head_strides m)"
    and "int_to_float s = Inr x"
  shows "\<exists>c. factory_decode d m opts = Inr (CifCaf c)
     \<and> CifCaf_stride c =
         Listed (if multi_scale_hflip opts
                 then [PyInt (s * 1), PyFloat (fl_mult x (Finite 1.5)), PyInt (s * 2),
                       PyInt (s * 3), PyInt (s * 5),
                       PyInt (s * 1), PyFloat (fl_mult x (Finite 1.5)), PyInt (s * 2),
                       PyInt (s * 3), PyInt (s * 5)]
                 else [PyInt (s * 1), PyFloat (fl_mult x (Finite 1.5)), PyInt (s * 2),
                       PyInt (s * 3), PyInt (s * 5)])
     \<and> (3 * \<bar>s\<bar> < 2 ^ 53 \<longrightarrow>
          x = Finite (of_int s) \<and> fl_mult x (Finite 1.5) = Finite (of_int s * 1.5))
     \<and> CifCaf_pif_min_scale c =
         Given (Listed
           (if multi_scale_hflip opts
            then [Finite 0.0, Finite 12.0, Finite 16.0, Finite 24.0, Finite 40.0,
                  Finite 0.0, Finite 12.0, Finite 16.0, Finite 24.0, Finite 40.0]
            else [Finite 0.0, Finite 12.0, Finite 16.0, Finite 24.0, Finite 40.0]))
     \<and> CifCaf_paf_min_distance c =
         Given (Listed (map (\<lambda>v. fl_mult v (Finite 3.0))
           (if multi_scale_hflip opts
            then [Finite 0.0, Finite 12.0, Finite 16.0, Finite 24.0, Finite 40.0,
                  Finite 0.0, Finite 12.0, Finite 16.0, Finite 24.0, Finite 40.0]
            else [Finite 0.0, Finite 12.0, Finite 16.0, Finite 24.0, Finite 40.0])))
     \<and> CifCaf_paf_min_distance c =
         Given (Listed
           (if multi_scale_hflip opts
            then [Finite 0.0, Finite 36.0, Finite 48.0, Finite 72.0, Finite 120.0,
                  Finite 0.0, Finite 36.0, Finite 48.0, Finite 72.0, Finite 120.0]
            else [Finite 0.0, Finite 36.0, Finite 48.0, Finite 72.0, Finite 120.0]))
     \<and> CifCaf_paf_max_distance c =
         Given (Listed
           (if multi_scale_hflip opts
            then [Some (Finite 160.0), Some (Finite 240.0), Some (Finite 320.0),
                  Some (Finite 480.0), None,
                  Some (Finite 160.0), Some (Finite 240.0), Some (Finite 320.0),
                  Some (Finite 480.0), None]
            else [Some (Finite 160.0), Some (Finite 240.0), Some (Finite 320.0),
                  Some (Finite 480.0), None]))
     \<and> CifCaf_pif_index c =
         Listed (if dense_connections opts
                 then (if multi_scale_hflip opts then [0, 2, 4, 6, 8, 10, 12, 14, 16, 18]
                       else [0, 2, 4, 6, 8])
                 else (if multi_scale_hflip opts then [0, 3, 6, 9, 12, 15, 18, 21, 24, 27]
                       else [0, 3, 6, 9, 12]))
     \<and> CifCaf_paf_index c =
         Listed (if dense_connections opts
                 then (if multi_scale_hflip opts then [1, 3, 5, 7, 9, 11, 13, 15, 17, 19]
                       else [1, 3, 5, 7, 9])
                 else (if multi_scale_hflip opts then [1, 4, 7, 10, 13, 16, 19, 22, 25, 28]
                       else [1, 4, 7, 10, 13]))"
proof -
  from assms(2,4) have li: "last_item (head_strides m) = Inr s"
    by (simp add: last_item_nonempty)
  have exact: "x = Finite (of_int s) \<and> fl_mult x (Finite 1.5) = Finite (of_int s * 1.5)"
    if "3 * \<bar>s\<bar> < 2 ^ 53"
    using int_times_one_and_a_half [OF that] assms(5) by simp
  note loc = paf_branch_locals_multi_scale [OF assms(3,5)]
  from assms(1) exact show ?thesis
    by (cases "dense_connections opts"; cases "multi_scale_hflip opts")
       (simp_all add: factory_decode_def li loc round_binary64_values round_binary64_0)
qed


lemma int_to_float_odd: "int_to_float 4503599627370495 = Inr (Finite 4503599627370495)"
  using int_to_float_exact [of 4503599627370495] by simp

lemma round_binary64_tie: "round_binary64 (13510798882111485 / 2) = Finite 6755399441055742"
  by code_simp

theorem factory_decode_multi_scale_tables_witness:
  "(\<exists>c. factory_decode coco_sample model_paf multi_scale_options = Inr (CifCaf c)
      \<and> CifCaf_stride c =
          Listed [PyInt 8, PyFloat (Finite 12), PyInt 16, PyInt 24, PyInt 40,
                  PyInt 8, PyFloat (Finite 12), PyInt 16, PyInt 24, PyInt 40]
      \<and> CifCaf_paf_min_distance c =
          Given (Listed [Finite 0, Finite 36, Finite 48, Finite 72, Finite 120,
                         Finite 0, Finite 36, Finite 48, Finite 72, Finite 120])
      \<and> CifCaf_pif_index c = Listed [0, 3, 6, 9, 12, 15, 18, 21, 24, 27]
      \<and> CifCaf_paf_index c = Listed [1, 4, 7, 10, 13, 16, 19, 22, 25, 28])
   \<and> (\<exists>c. factory_decode coco_sample model_paf multi_scale_dense_options = Inr (CifCaf c)
      \<and> CifCaf_stride c = Listed [PyInt 8, PyFloat (Finite 12), PyInt 16, PyInt 24, PyInt 40]
      \<and> CifCaf_paf_min_distance c =
          Given (Listed [Finite 0, Finite 36, Finite 48, Finite 72, Finite 120])
      \<and> CifCaf_pif_index c = Listed [0, 2, 4, 6, 8]
      \<and> CifCaf_paf_index c = Listed [1, 3, 5, 7, 9])
   \<and> (\<exists>c. factory_decode coco_sample model_odd_stride multi_scale_dense_options
              = Inr (CifCaf c)
      \<and> CifCaf_stride c =
          Listed [PyInt 4503599627370495, PyFloat (Finite 6755399441055742),
                  PyInt 9007199254740990, PyInt 13510798882111485,
                  PyInt 22517998136852475])"
proof -
  have paf: "head_names model_paf = [''cif'', ''paf'', ''paf25'']"
    and ne: "head_strides model_paf \<noteq> []"
    and s: "8 = last (head_strides model_paf)"
    and odd: "head_names model_odd_stride = [''cif'', ''paf'', ''paf25'']"
    and ne_odd: "head_strides model_odd_stride \<noteq> []"
    and s_odd: "4503599627370495 = last (head_strides model_odd_stride)"
    by (simp_all add: model_paf_def model_odd_stride_def)
  have o1: "multi_scale multi_scale_options" "multi_scale_hflip multi_scale_options"
    "\<not> dense_connections multi_scale_options"
    by (simp_all add: multi_scale_options_def default_options_def)
  have o2: "multi_scale multi_scale_dense_options"
    "\<not> multi_scale_hflip multi_scale_dense_options"
    "dense_connections multi_scale_dense_options"
    by (simp_all add: multi_scale_dense_options_def dense_options_def default_options_def)
  have 1: "\<exists>c. factory_decode coco_sample model_paf multi_scale_options = Inr (CifCaf c)
      \<and> CifCaf_stride c =
          Listed [PyInt 8, PyFloat (Finite 12), PyInt 16, PyInt 24, PyInt 40,
                  PyInt 8, PyFloat (Finite 12), PyInt 16, PyInt 24, PyInt 40]
      \<and> CifCaf_paf_min_distance c =
          Given (Listed [Finite 0, Finite 36, Finite 48, Finite 72, Finite 120,
                         Finite 0, Finite 36, Finite 48, Finite 72, Finite 120])
      \<and> CifCaf_pif_index c = Listed [0, 3, 6, 9, 12, 15, 18, 21, 24, 27]
      \<and> CifCaf_paf_index c = Listed [1, 4, 7, 10, 13, 16, 19, 22, 25, 28]"
    using factory_decode_multi_scale_tables [OF paf ne o1(1) s int_to_float_8, of coco_sample]
    by (auto simp: o1 round_binary64_values)
  have 2: "\<exists>c. factory_decode coco_sample model_paf multi_scale_dense_options = Inr (CifCaf c)
      \<and> CifCaf_stride c = Listed [PyInt 8, PyFloat (Finite 12), PyInt 16, PyInt 24, PyInt 40]
      \<and> CifCaf_paf_min_distance c =
          Given (Listed [Finite 0, Finite 36, Finite 48, Finite 72, Finite 120])
      \<and> CifCaf_pif_index c = Listed [0, 2, 4, 6, 8]
      \<and> CifCaf_paf_index c = Listed [1, 3, 5, 7, 9]"
    using factory_decode_multi_scale_tables [OF paf ne o2(1) s int_to_float_8, of coco_sample]
    by (auto simp: o2 round_binary64_values)
  have 3: "\<exists>c. factory_decode coco_sample model_odd_stride multi_scale_dense_options
              = Inr (CifCaf c)
      \<and> CifCaf_stride c =
          Listed [PyInt 4503599627370495, PyFloat (Finite 6755399441055742),
                  PyInt 9007199254740990, PyInt 13510798882111485,
                  PyInt 22517998136852475]"
    using factory_decode_multi_scale_tables
      [OF odd ne_odd o2(1) s_odd int_to_float_odd, of coco_sample]
    by (auto simp: o2 round_binary64_tie)
  from 1 2 3 show ?thesis by (intro conjI)
qed

end
